theory Spec2Isabelle
  imports Main "HOL-Library.Word"
begin

section \<open>The tmux control-mode decoder of Vt102Emulation.h\<close>

text \<open>
  The header declares the tmux command controller (\<open>TmuxServerManager\<close>), the id parser
  \<open>parseTmuxId\<close> and one small parser struct per tmux notification, each with
  \<open>push_char\<close> and \<open>execute\<close>. The embedding keeps their names. A struct is a record
  whose fields carry a short prefix (several structs of the header share the field names
  \<open>arg\<close>, \<open>lexBuffer\<close>, \<open>window\<close>), a member function takes the record and returns the
  updated one.
\<close>

subsection \<open>Machine integers and characters\<close>

text \<open>
  \<open>uint\<close> is a 32-bit word. A C \<open>int\<close> that accumulates input (ids, sizes) is a
  32-bit word too, read through \<open>sint\<close>: \<open>window * 10 + (cc - 0x30)\<close> mixes \<open>int\<close> and
  \<open>uint\<close>, so the sum is computed modulo \<open>2 ^ 32\<close>. The small control counters
  (\<open>arg\<close>, \<open>octParse\<close>, \<open>counter\<close>) are only ever incremented under a guard that bounds
  them, so they are plain integers.
\<close>

type_synonym uint32 = "32 word"
type_synonym int32 = "32 word"

definition isDigit :: "uint32 \<Rightarrow> bool" where
  \<comment> \<open>\<open>cc >= 0x30 && cc <= 0x39\<close>\<close>
  "isDigit cc \<longleftrightarrow> 0x30 \<le> cc \<and> cc \<le> 0x39"

subsection \<open>The Qt conversions \<open>QString::toInt\<close> and \<open>QString::toULongLong\<close>\<close>

text \<open>
  Both belong to the Qt library, not to this repository. They are modelled from Qt's
  documentation: the conversion is done in the C locale with base 10, leading and trailing
  whitespace is ignored, a sign may precede the digits (a minus sign only for a signed
  result), and the conversion fails (result 0, \<open>*ok = false\<close>) when the text is not a
  number or the number does not fit the result type. A \<open>QString\<close> built by
  \<open>QString::fromUcs4\<close> is kept as its code points.
\<close>

definition isSpace :: "uint32 \<Rightarrow> bool" where
  \<comment> \<open>\<open>QChar::isSpace\<close>: the separator categories and the control characters tab to CR and NEL\<close>
  "isSpace cc \<longleftrightarrow>
     cc = 0x20 \<or> (0x09 \<le> cc \<and> cc \<le> 0x0D) \<or> cc = 0x85 \<or> cc = 0xA0 \<or> cc = 0x1680
     \<or> (0x2000 \<le> cc \<and> cc \<le> 0x200A) \<or> cc = 0x2028 \<or> cc = 0x2029 \<or> cc = 0x202F
     \<or> cc = 0x205F \<or> cc = 0x3000"

definition decValue :: "uint32 list \<Rightarrow> nat" where
  "decValue ds = foldl (\<lambda>v cc. 10 * v + unat (cc - 0x30)) 0 ds"

definition trimmed :: "uint32 list \<Rightarrow> uint32 list" where
  "trimmed s = rev (dropWhile isSpace (rev (dropWhile isSpace s)))"

definition QString_toIntegral :: "bool \<Rightarrow> int \<Rightarrow> int \<Rightarrow> uint32 list \<Rightarrow> int option" where
  "QString_toIntegral isSigned lo hi s =
     (let t = trimmed s;
          neg = (t \<noteq> [] \<and> hd t = 0x2D);
          ds = (if t \<noteq> [] \<and> (hd t = 0x2D \<or> hd t = 0x2B) then tl t else t);
          v = (if neg then - int (decValue ds) else int (decValue ds))
      in if neg \<and> \<not> isSigned then None
         else if ds \<noteq> [] \<and> list_all isDigit ds \<and> lo \<le> v \<and> v \<le> hi then Some v
         else None)"

definition QString_toInt :: "uint32 list \<Rightarrow> int32 \<times> bool" where
  "QString_toInt s =
     (case QString_toIntegral True (- (2 ^ 31)) (2 ^ 31 - 1) s of
        Some v \<Rightarrow> (word_of_int v, True)
      | None \<Rightarrow> (0, False))"

definition QString_toULongLong :: "uint32 list \<Rightarrow> 64 word \<times> bool" where
  "QString_toULongLong s =
     (case QString_toIntegral False 0 (2 ^ 64 - 1) s of
        Some v \<Rightarrow> (word_of_int v, True)
      | None \<Rightarrow> (0, False))"

subsection \<open>\<open>parseTmuxId\<close>\<close>

text \<open>
  \<open>int parseTmuxId<C>(const QVector<uint> lexBuffer, bool *ok = nullptr)\<close>. The argument
  \<open>hasOk\<close> says whether \<open>ok\<close> is a non-null pointer. The result is the returned \<open>int\<close>
  and the value written to \<open>*ok\<close>; \<open>None\<close> in the first component is the local \<open>ret\<close>
  returned without ever having been assigned, \<open>None\<close> in the second is "nothing written".
\<close>

definition parseTmuxId :: "uint32 \<Rightarrow> uint32 list \<Rightarrow> bool \<Rightarrow> int32 option \<times> bool option" where
  "parseTmuxId C lexBuffer hasOk =
     (if length lexBuffer = 2 \<and> lexBuffer ! 0 = C \<and> lexBuffer ! 1 = 0x2A then
        (Some (- 1), if hasOk then Some True else None)
      else if length lexBuffer \<ge> 2 \<and> lexBuffer ! 0 = C then
        (let r = QString_toInt (drop 1 lexBuffer)
         in (Some (fst r), if hasOk then Some (snd r) else None))
      else if hasOk then
        (Some (- 2), Some False)
      else
        (None, None))"

definition parseTmuxSessionId :: "uint32 list \<Rightarrow> bool \<Rightarrow> int32 option \<times> bool option" where
  "parseTmuxSessionId = parseTmuxId 0x24"

definition parseTmuxWindowId :: "uint32 list \<Rightarrow> bool \<Rightarrow> int32 option \<times> bool option" where
  "parseTmuxWindowId = parseTmuxId 0x40"

definition parseTmuxPaneId :: "uint32 list \<Rightarrow> bool \<Rightarrow> int32 option \<times> bool option" where
  "parseTmuxPaneId = parseTmuxId 0x25"

subsection \<open>\<open>TmuxOutputNotification\<close> and \<open>TmuxExtendedOutputNotification\<close>\<close>

record TmuxOutputNotification =
  out_arg :: int
  out_octParse :: int
  out_octParseChar :: uint32
  out_lexBuffer :: "uint32 list"
  out_pane :: "int32 option"

definition Output_push_char :: "TmuxOutputNotification \<Rightarrow> uint32 \<Rightarrow> TmuxOutputNotification" where
  "Output_push_char n cc =
     (if out_arg n = 0 then
        (if cc = 0x20 then
           n\<lparr>out_pane := fst (parseTmuxPaneId (out_lexBuffer n) True), out_lexBuffer := [], out_arg := 1\<rparr>
         else n\<lparr>out_lexBuffer := out_lexBuffer n @ [cc]\<rparr>)
      else if cc = 0x5C then n\<lparr>out_octParse := 1\<rparr>
      else if out_octParse n > 0 \<and> out_octParse n < 4 then
        (if cc \<ge> 0x30 \<and> cc \<le> 0x39 then
           (let c = out_octParseChar n * 8 + (cc - 0x30);
                p = out_octParse n + 1
            in if p = 4 then
                 n\<lparr>out_lexBuffer := out_lexBuffer n @ [c], out_octParseChar := 0, out_octParse := 0\<rparr>
               else n\<lparr>out_octParseChar := c, out_octParse := p\<rparr>)
         else
           n\<lparr>out_lexBuffer := out_lexBuffer n @ [out_octParseChar n, cc],
             out_octParseChar := 0, out_octParse := 0\<rparr>)
      else n\<lparr>out_lexBuffer := out_lexBuffer n @ [cc]\<rparr>)"

text \<open>\<open>execute\<close> calls \<open>m.receiveOutput(pane, lexBuffer)\<close>, which the header only declares:
  the model returns the two arguments of that call.\<close>

definition Output_execute :: "TmuxOutputNotification \<Rightarrow> int32 option \<times> uint32 list" where
  "Output_execute n = (out_pane n, out_lexBuffer n)"

record TmuxExtendedOutputNotification =
  ext_arg :: int
  ext_octParse :: int
  ext_octParseChar :: uint32
  ext_lexBuffer :: "uint32 list"
  ext_pane :: "int32 option"
  ext_age :: "64 word"

definition ExtendedOutput_push_char ::
  "TmuxExtendedOutputNotification \<Rightarrow> uint32 \<Rightarrow> TmuxExtendedOutputNotification" where
  "ExtendedOutput_push_char n cc =
     (if ext_arg n = 0 \<and> cc = 0x20 then
        n\<lparr>ext_pane := fst (parseTmuxPaneId (ext_lexBuffer n) True), ext_lexBuffer := [],
          ext_arg := ext_arg n + 1\<rparr>
      else if ext_arg n = 1 \<and> cc = 0x20 then
        n\<lparr>ext_age := fst (QString_toULongLong (ext_lexBuffer n)), ext_lexBuffer := [],
          ext_arg := ext_arg n + 1\<rparr>
      else if ext_arg n = 2 \<and> cc = 0x20 then
        (if length (ext_lexBuffer n) = 1 \<and> ext_lexBuffer n ! 0 = 0x3A then
           n\<lparr>ext_lexBuffer := [], ext_arg := ext_arg n + 1\<rparr>
         else n\<lparr>ext_lexBuffer := []\<rparr>)
      else if ext_arg n < 2 then n\<lparr>ext_lexBuffer := ext_lexBuffer n @ [cc]\<rparr>
      else if ext_arg n = 3 then
        (if cc = 0x5C then n\<lparr>ext_octParse := 1\<rparr>
         else if ext_octParse n > 0 \<and> ext_octParse n < 4 then
           (if cc \<ge> 0x30 \<and> cc \<le> 0x39 then
              (let c = ext_octParseChar n * 8 + (cc - 0x30);
                   p = ext_octParse n + 1
               in if p = 4 then
                    n\<lparr>ext_lexBuffer := ext_lexBuffer n @ [c], ext_octParseChar := 0, ext_octParse := 0\<rparr>
                  else n\<lparr>ext_octParseChar := c, ext_octParse := p\<rparr>)
            else
              n\<lparr>ext_lexBuffer := ext_lexBuffer n @ [ext_octParseChar n, cc],
                ext_octParseChar := 0, ext_octParse := 0\<rparr>)
         else n\<lparr>ext_lexBuffer := ext_lexBuffer n @ [cc]\<rparr>)
      else n)"

definition ExtendedOutput_execute ::
  "TmuxExtendedOutputNotification \<Rightarrow> int32 option \<times> 64 word \<times> uint32 list" where
  "ExtendedOutput_execute n = (ext_pane n, ext_age n, ext_lexBuffer n)"

text \<open>The text tmux writes for a byte: a backslash and the three octal digits of the byte.\<close>

definition octalEscape :: "nat \<Rightarrow> uint32 list" where
  "octalEscape b =
     [0x5C, 0x30 + of_nat (b div 64), 0x30 + of_nat (b div 8 mod 8), 0x30 + of_nat (b mod 8)]"

subsection \<open>The window-id notifications\<close>

text \<open>
  \<open>TmuxWindowAddNotification\<close>, \<open>TmuxWindowCloseNotification\<close>,
  \<open>TmuxUnlinkedWindowCloseNotification\<close> and \<open>TmuxUnlinkedWindowRenamedNotification\<close>
  share one \<open>push_char\<close>, an \<open>if / else if / else\<close> chain. \<open>execute\<close> hands \<open>window\<close> to
  the manager (\<open>m.receiveWindowAdd(window)\<close>, only declared in the header): the model returns
  that argument.
\<close>

record TmuxWindowAddNotification =
  wa_arg :: int
  wa_window :: int32

definition WindowAdd_push_char :: "TmuxWindowAddNotification \<Rightarrow> uint32 \<Rightarrow> TmuxWindowAddNotification" where
  "WindowAdd_push_char n cc =
     (if wa_arg n = 0 \<and> cc = 0x40 then n\<lparr>wa_arg := 1\<rparr>
      else if wa_arg n = 1 \<and> cc > 0x30 \<and> cc \<le> 0x39 then
        n\<lparr>wa_window := wa_window n * 10 + (cc - 0x30)\<rparr>
      else n\<lparr>wa_arg := 2, wa_window := - 2\<rparr>)"

definition WindowAdd_execute :: "TmuxWindowAddNotification \<Rightarrow> int32" where
  "WindowAdd_execute n = wa_window n"

text \<open>
  In \<open>TmuxUnlinkedWindowAddNotification::push_char\<close> the second \<open>if\<close> is not an
  \<open>else if\<close>: it runs after the first one, on the updated \<open>arg\<close>.
\<close>

record TmuxUnlinkedWindowAddNotification =
  uwa_arg :: int
  uwa_window :: int32

definition UnlinkedWindowAdd_push_char ::
  "TmuxUnlinkedWindowAddNotification \<Rightarrow> uint32 \<Rightarrow> TmuxUnlinkedWindowAddNotification" where
  "UnlinkedWindowAdd_push_char n cc =
     (let n1 = (if uwa_arg n = 0 \<and> cc = 0x40 then n\<lparr>uwa_arg := 1\<rparr> else n)
      in if uwa_arg n1 = 1 \<and> cc > 0x30 \<and> cc \<le> 0x39 then
           n1\<lparr>uwa_window := uwa_window n1 * 10 + (cc - 0x30)\<rparr>
         else n1\<lparr>uwa_arg := 2, uwa_window := - 2\<rparr>)"

definition UnlinkedWindowAdd_execute :: "TmuxUnlinkedWindowAddNotification \<Rightarrow> int32" where
  "UnlinkedWindowAdd_execute n = uwa_window n"

subsection \<open>\<open>TmuxCommand\<close>\<close>

text \<open>
  A command holds its text and two \<open>std::function\<close> handlers, either of which may be null.
  The closures the header creates are named; \<open>externalHandler k\<close> stands for a handler
  given by a caller outside the header, which does not touch the manager. The constructor
  with arguments installs a logging error handler when none is given.
\<close>

datatype ResponseHandler =
    tmuxAttachHandler
  | updateSessionsHandler
  | konsoleSizeHandler int32
  | externalHandler nat

datatype ErrorHandler =
    defaultErrorHandler
  | externalErrorHandler nat

record TmuxCommand =
  m_command :: string
  m_responseHandler :: "ResponseHandler option"
  m_errorHandler :: "ErrorHandler option"

definition TmuxCommand_default :: TmuxCommand where
  "TmuxCommand_default = \<lparr>m_command = [], m_responseHandler = None, m_errorHandler = None\<rparr>"

definition TmuxCommand_new ::
  "string \<Rightarrow> ResponseHandler option \<Rightarrow> ErrorHandler option \<Rightarrow> TmuxCommand" where
  "TmuxCommand_new command responseHandler errorHandler =
     \<lparr>m_command = command, m_responseHandler = responseHandler,
      m_errorHandler = (case errorHandler of None \<Rightarrow> Some defaultErrorHandler | Some e \<Rightarrow> Some e)\<rparr>"

definition TmuxCommand_bool :: "TmuxCommand \<Rightarrow> bool" where
  \<comment> \<open>\<open>operator bool\<close>\<close>
  "TmuxCommand_bool c \<longleftrightarrow> m_responseHandler c \<noteq> None \<and> m_errorHandler c \<noteq> None"

subsection \<open>\<open>TmuxSessionManager\<close> and \<open>TmuxServerManager\<close>\<close>

record TmuxSessionManager =
  m_name :: "uint32 list"
  m_guiWindowSize :: "(int32 \<times> int32) option"

definition TmuxSessionManager_new :: "uint32 list \<Rightarrow> TmuxSessionManager" where
  "TmuxSessionManager_new name = \<lparr>m_name = name, m_guiWindowSize = None\<rparr>"

definition setName :: "TmuxSessionManager \<Rightarrow> uint32 list \<Rightarrow> TmuxSessionManager" where
  "setName s name = s\<lparr>m_name := name\<rparr>"

text \<open>
  Modelled from the spec: \<open>TmuxSessionManager::setGuiWindowSize(int, int)\<close> is declared in
  the header and defined elsewhere. The spec's session record is \<open>{name, size}\<close> and the
  response to \<open>@konsole_size\<close> "configures the session's GUI size": the call stores the pair.
\<close>

definition setGuiWindowSize :: "TmuxSessionManager \<Rightarrow> int32 \<Rightarrow> int32 \<Rightarrow> TmuxSessionManager" where
  "setGuiWindowSize s w h = s\<lparr>m_guiWindowSize := Some (w, h)\<rparr>"

text \<open>
  What the manager does to the outside is kept in \<open>m_trace\<close>, in the order it happens:
  the signal \<open>doSendCommand\<close>, each call of a handler with its argument, the \<open>qDebug\<close>
  branch for a response nobody waits for, a failed \<open>Q_ASSERT\<close>, and the dereference of a
  null \<open>QPointer\<close>. After a failed \<open>Q_ASSERT\<close> the model goes on, as a release build
  does, where the macro expands to nothing.
\<close>

datatype Event =
    doSendCommand string
  | responseHandlerCalled ResponseHandler "uint32 list list"
  | errorHandlerCalled ErrorHandler "uint32 list list"
  | unexpectedResponse
  | unexpectedError
  | assertFailed
  | nullDereference

record TmuxServerManager =
  m_currentCommand :: TmuxCommand
  m_pendingCommands :: "TmuxCommand list"
  m_sessions :: "int32 \<rightharpoonup> TmuxSessionManager"
  m_activeSession :: int32
  m_initComplete :: bool
  m_trace :: "Event list"

definition emit :: "Event \<Rightarrow> TmuxServerManager \<Rightarrow> TmuxServerManager" where
  "emit e m = m\<lparr>m_trace := m_trace m @ [e]\<rparr>"

definition TmuxServerManager_new :: TmuxServerManager where
  "TmuxServerManager_new =
     \<lparr>m_currentCommand = TmuxCommand_default,
      m_pendingCommands = [TmuxCommand_new [] (Some tmuxAttachHandler) None],
      m_sessions = Map.empty,
      m_activeSession = - 1,
      m_initComplete = False,
      m_trace = []\<rparr>"

definition sendCommand :: "TmuxServerManager \<Rightarrow> TmuxCommand \<Rightarrow> TmuxServerManager" where
  "sendCommand m command =
     (if \<not> TmuxCommand_bool (m_currentCommand m) then
        emit (doSendCommand (m_command command)) (m\<lparr>m_currentCommand := command\<rparr>)
      else m\<lparr>m_pendingCommands := m_pendingCommands m @ [command]\<rparr>)"

text \<open>The loop of \<open>updateSessions\<close> over one response line, and the local vector it fills.\<close>

definition sessionStringStep :: "int \<times> int \<times> int32 \<Rightarrow> uint32 \<Rightarrow> int \<times> int \<times> int32" where
  "sessionStringStep st cc =
     (case st of (counter, i, session) \<Rightarrow>
        if counter = 0 \<and> cc = 0x24 then (counter + 1, i + 1, session)
        else if counter = 1 \<and> cc \<ge> 0x30 \<and> cc \<le> 0x39 then
          (counter, i + 1, session * 10 + (cc - 0x30))
        else if counter = 1 \<and> cc = 0x20 then (counter + 1, i + 1, session)
        else (counter, i, session))"

definition parseSessionString :: "uint32 list \<Rightarrow> int \<times> int32 \<times> uint32 list" where
  "parseSessionString sessionString =
     (case foldl sessionStringStep (0, 0, 0) sessionString of
        (counter, i, session) \<Rightarrow> (counter, session, drop (nat i) sessionString))"

definition updatedSessions :: "uint32 list list \<Rightarrow> (int32 \<times> uint32 list) list" where
  \<comment> \<open>the local \<open>updatedSessions\<close>, with \<open>push_back({session, name})\<close>\<close>
  "updatedSessions response = map (\<lambda>l. snd (parseSessionString l)) response"

text \<open>
  \<open>updateSessions\<close> fills the local vector and returns: no member of the manager is
  written. Its only other effect is the \<open>Q_ASSERT(counter == 2)\<close> of each line.
\<close>

definition updateSessions :: "TmuxServerManager \<Rightarrow> uint32 list list \<Rightarrow> TmuxServerManager" where
  "updateSessions m response =
     (if list_all (\<lambda>l. fst (parseSessionString l) = 2) response then m else emit assertFailed m)"

text \<open>The loop of the \<open>@konsole_size\<close> handler; \<open>None\<close> is its early \<open>return\<close>.\<close>

fun konsoleSizeLoop :: "uint32 list \<Rightarrow> int \<Rightarrow> int32 \<Rightarrow> int32 \<Rightarrow> (int32 \<times> int32) option" where
  "konsoleSizeLoop [] arg width height = Some (width, height)"
| "konsoleSizeLoop (cc # cs) arg width height =
     (if cc \<ge> 0x30 \<and> cc \<le> 0x39 then
        (if arg = 0 then konsoleSizeLoop cs arg (width * 10 + (cc - 0x30)) height
         else konsoleSizeLoop cs arg width (height * 10 + (cc - 0x30)))
      else if arg = 0 \<and> cc = 0x2C then konsoleSizeLoop cs (arg + 1) width height
      else None)"

definition konsoleSize :: "TmuxServerManager \<Rightarrow> int32 \<Rightarrow> uint32 list list \<Rightarrow> TmuxServerManager" where
  "konsoleSize m session response =
     (let m1 = (if length response \<le> 1 then m else emit assertFailed m)
      in if length response = 1 then
           (case konsoleSizeLoop (response ! 0) 0 0 0 of
              None \<Rightarrow> m1
            | Some (width, height) \<Rightarrow>
                (case m_sessions m1 session of
                   None \<Rightarrow> emit nullDereference m1
                 | Some s \<Rightarrow>
                     m1\<lparr>m_sessions := (m_sessions m1)(session \<mapsto> setGuiWindowSize s width height)\<rparr>))
         else m1)"

definition runResponseHandler ::
  "ResponseHandler \<Rightarrow> uint32 list list \<Rightarrow> TmuxServerManager \<Rightarrow> TmuxServerManager" where
  "runResponseHandler h response m =
     (case h of
        tmuxAttachHandler \<Rightarrow> m
      | updateSessionsHandler \<Rightarrow> updateSessions m response
      | konsoleSizeHandler session \<Rightarrow> konsoleSize m session response
      | externalHandler k \<Rightarrow> m)"

text \<open>
  \<open>receiveCommandResponse\<close>: \<open>TmuxCommand::execute\<close> calls the response handler and resets it
  to null; then the next pending command, if any, becomes current and is sent.
\<close>

definition receiveCommandResponse :: "TmuxServerManager \<Rightarrow> uint32 list list \<Rightarrow> TmuxServerManager" where
  "receiveCommandResponse m response =
     (case m_responseHandler (m_currentCommand m) of
        Some h \<Rightarrow>
          if m_errorHandler (m_currentCommand m) \<noteq> None then
            (let m1 = runResponseHandler h response (emit (responseHandlerCalled h response) m);
                 m2 = m1\<lparr>m_currentCommand := (m_currentCommand m1)\<lparr>m_responseHandler := None\<rparr>\<rparr>
             in case m_pendingCommands m2 of
                  [] \<Rightarrow> m2
                | c # cs \<Rightarrow>
                    emit (doSendCommand (m_command c))
                      (m2\<lparr>m_currentCommand := c, m_pendingCommands := cs\<rparr>))
          else emit unexpectedResponse m
      | None \<Rightarrow> emit unexpectedResponse m)"

text \<open>
  \<open>receiveCommandError\<close>: \<open>TmuxCommand::executeError\<close> calls the error handler (both kinds
  only log) and resets it to null. The function ends there.
\<close>

definition receiveCommandError :: "TmuxServerManager \<Rightarrow> uint32 list list \<Rightarrow> TmuxServerManager" where
  "receiveCommandError m response =
     (case m_errorHandler (m_currentCommand m) of
        Some e \<Rightarrow>
          if m_responseHandler (m_currentCommand m) \<noteq> None then
            (let m1 = emit (errorHandlerCalled e response) m
             in m1\<lparr>m_currentCommand := (m_currentCommand m1)\<lparr>m_errorHandler := None\<rparr>\<rparr>)
          else emit unexpectedError m
      | None \<Rightarrow> emit unexpectedError m)"

text \<open>\<open>QString::arg(int)\<close> writes the number in decimal, with a minus sign when negative.\<close>

definition decDigit :: "nat \<Rightarrow> char" where
  "decDigit d = ''0123456789'' ! d"

fun decString :: "nat \<Rightarrow> string" where
  "decString n = (if n < 10 then [decDigit n] else decString (n div 10) @ [decDigit (n mod 10)])"

definition QString_number :: "int \<Rightarrow> string" where
  "QString_number i = (if i < 0 then CHR ''-'' # decString (nat (- i)) else decString (nat i))"

definition receiveSessionChanged ::
  "TmuxServerManager \<Rightarrow> int32 \<Rightarrow> uint32 list \<Rightarrow> TmuxServerManager" where
  "receiveSessionChanged m session name =
     (let m1 =
        (case m_sessions m session of
           Some s \<Rightarrow> m\<lparr>m_sessions := (m_sessions m)(session \<mapsto> setName s name)\<rparr>
         | None \<Rightarrow>
             sendCommand (m\<lparr>m_sessions := (m_sessions m)(session \<mapsto> TmuxSessionManager_new name)\<rparr>)
               (TmuxCommand_new
                  (''show -v -q -t $'' @ QString_number (sint (m_activeSession m)) @ '' @konsole_size'')
                  (Some (konsoleSizeHandler session)) None))
      in m1\<lparr>m_activeSession := session\<rparr>)"

definition init :: "TmuxServerManager \<Rightarrow> TmuxServerManager" where
  "init m =
     sendCommand m
       (TmuxCommand_new
          (''ls -F '' @ [CHR 0x27] @ ''#{session_id} #{q:session_name}'' @ [CHR 0x27])
          (Some updateSessionsHandler) None)"

text \<open>The calls the manager receives, and a run of them from a given state.\<close>

datatype Call =
    SendCommand TmuxCommand
  | ReceiveCommandResponse "uint32 list list"
  | ReceiveCommandError "uint32 list list"
  | ReceiveSessionChanged int32 "uint32 list"
  | Init

fun step :: "TmuxServerManager \<Rightarrow> Call \<Rightarrow> TmuxServerManager" where
  "step m (SendCommand c) = sendCommand m c"
| "step m (ReceiveCommandResponse r) = receiveCommandResponse m r"
| "step m (ReceiveCommandError r) = receiveCommandError m r"
| "step m (ReceiveSessionChanged session name) = receiveSessionChanged m session name"
| "step m Init = init m"

definition run :: "Call list \<Rightarrow> TmuxServerManager" where
  "run calls = foldl step TmuxServerManager_new calls"

fun responseHandlersCalled :: "Event list \<Rightarrow> ResponseHandler list" where
  "responseHandlersCalled [] = []"
| "responseHandlersCalled (responseHandlerCalled h r # es) = h # responseHandlersCalled es"
| "responseHandlersCalled (e # es) = responseHandlersCalled es"

fun commandsSent :: "Event list \<Rightarrow> string list" where
  "commandsSent [] = []"
| "commandsSent (doSendCommand c # es) = c # commandsSent es"
| "commandsSent (e # es) = commandsSent es"

text \<open>A command as a caller outside the header creates it: the text and a response handler.\<close>

definition externalCommand :: "string \<Rightarrow> nat \<Rightarrow> TmuxCommand" where
  "externalCommand text k = TmuxCommand_new text (Some (externalHandler k)) None"

text \<open>The accumulation \<open>v = v * 10 + (cc - 0x30)\<close> that the decimal loops of the header share.\<close>

definition decAccumulate :: "int32 \<Rightarrow> uint32 list \<Rightarrow> int32" where
  "decAccumulate v ds = foldl (\<lambda>v cc. v * 10 + (cc - 0x30)) v ds"

text \<open>
  The bookkeeping of the queue properties: how many handler calls (response or error) the
  trace holds, the commands that wait for a response in the order they will be served, and
  the response handlers called so far followed by those that wait, without the attach
  handler the constructor queues.
\<close>

fun answers :: "Event list \<Rightarrow> nat" where
  "answers [] = 0"
| "answers (responseHandlerCalled h r # es) = Suc (answers es)"
| "answers (errorHandlerCalled e r # es) = Suc (answers es)"
| "answers (e # es) = answers es"

definition oneInFlight :: "TmuxServerManager \<Rightarrow> bool" where
  "oneInFlight m \<longleftrightarrow>
     list_all TmuxCommand_bool (m_pendingCommands m)
     \<and> length (commandsSent (m_trace m))
         = answers (m_trace m) + (if TmuxCommand_bool (m_currentCommand m) then 1 else 0)"

definition waiting :: "TmuxServerManager \<Rightarrow> TmuxCommand list" where
  "waiting m =
     (if TmuxCommand_bool (m_currentCommand m) then [m_currentCommand m] else []) @ m_pendingCommands m"

definition notAttach :: "ResponseHandler list \<Rightarrow> ResponseHandler list" where
  "notAttach hs = filter (\<lambda>h. h \<noteq> tmuxAttachHandler) hs"

definition fifoOrder :: "TmuxServerManager \<Rightarrow> ResponseHandler list" where
  "fifoOrder m =
     notAttach (responseHandlersCalled (m_trace m) @ List.map_filter m_responseHandler (waiting m))"

definition queueReady :: "TmuxServerManager \<Rightarrow> bool" where
  "queueReady m \<longleftrightarrow>
     list_all TmuxCommand_bool (m_pendingCommands m)
     \<and> (\<not> TmuxCommand_bool (m_currentCommand m) \<longrightarrow>
          list_all (\<lambda>c. m_responseHandler c = Some tmuxAttachHandler) (m_pendingCommands m))"

fun sentCommands :: "Call list \<Rightarrow> TmuxCommand list" where
  "sentCommands [] = []"
| "sentCommands (SendCommand c # cs) = c # sentCommands cs"
| "sentCommands (c # cs) = sentCommands cs"

fun wellFormedCall :: "Call \<Rightarrow> bool" where
  "wellFormedCall (SendCommand c) = TmuxCommand_bool c"
| "wellFormedCall c = True"

fun sendOrResponse :: "Call \<Rightarrow> bool" where
  "sendOrResponse (SendCommand c) = TmuxCommand_bool c"
| "sendOrResponse (ReceiveCommandResponse r) = True"
| "sendOrResponse c = False"

section \<open>The escaped payload of \<open>%output\<close> and \<open>%extended-output\<close>\<close>

lemma octal_digit_cases:
  "d < 8 \<Longrightarrow> d = 0 \<or> d = 1 \<or> d = 2 \<or> d = 3 \<or> d = 4 \<or> d = 5 \<or> d = 6 \<or> d = (7::nat)"
  by arith

lemma octal_digit_char:
  assumes "d < (8::nat)"
  shows "(0x30 + of_nat d :: uint32) \<noteq> 0x5C \<and> 0x30 \<le> (0x30 + of_nat d :: uint32)
     \<and> (0x30 + of_nat d :: uint32) \<le> 0x39 \<and> (0x30 + of_nat d :: uint32) - 0x30 = of_nat d"
  using octal_digit_cases [OF assms] by auto

lemma octal_value:
  "((of_nat (b div 64) :: uint32) * 8 + of_nat (b div 8 mod 8)) * 8 + of_nat (b mod 8) = of_nat b"
proof -
  have "b div 64 = b div 8 div 8" by (simp add: div_mult2_eq)
  then have "b div 64 * 8 + b div 8 mod 8 = b div 8" by simp
  then have "(b div 64 * 8 + b div 8 mod 8) * 8 + b mod 8 = b" by simp
  then have "(of_nat ((b div 64 * 8 + b div 8 mod 8) * 8 + b mod 8) :: uint32) = of_nat b" by simp
  then show ?thesis by simp
qed

text \<open>One character at a time: the four branches of the payload part of \<open>push_char\<close>.\<close>

lemma Output_push_backslash:
  "out_arg n \<noteq> 0 \<Longrightarrow> Output_push_char n 0x5C = n\<lparr>out_octParse := 1\<rparr>"
  by (simp add: Output_push_char_def)

lemma Output_push_digit:
  assumes "out_arg n \<noteq> 0" "cc \<noteq> 0x5C" "0x30 \<le> cc" "cc \<le> 0x39"
    "0 < out_octParse n" "out_octParse n < 3"
  shows "Output_push_char n cc =
     n\<lparr>out_octParseChar := out_octParseChar n * 8 + (cc - 0x30), out_octParse := out_octParse n + 1\<rparr>"
  using assms by (simp add: Output_push_char_def Let_def)

lemma Output_push_last_digit:
  assumes "out_arg n \<noteq> 0" "cc \<noteq> 0x5C" "0x30 \<le> cc" "cc \<le> 0x39" "out_octParse n = 3"
  shows "Output_push_char n cc =
     n\<lparr>out_lexBuffer := out_lexBuffer n @ [out_octParseChar n * 8 + (cc - 0x30)],
       out_octParseChar := 0, out_octParse := 0\<rparr>"
  using assms by (simp add: Output_push_char_def Let_def)

lemma Output_push_abort:
  assumes "out_arg n \<noteq> 0" "cc \<noteq> 0x5C" "\<not> (0x30 \<le> cc \<and> cc \<le> 0x39)"
    "0 < out_octParse n" "out_octParse n < 4"
  shows "Output_push_char n cc =
     n\<lparr>out_lexBuffer := out_lexBuffer n @ [out_octParseChar n, cc],
       out_octParseChar := 0, out_octParse := 0\<rparr>"
  using assms by (auto simp add: Output_push_char_def)

lemma Output_push_plain:
  assumes "out_arg n \<noteq> 0" "cc \<noteq> 0x5C" "out_octParse n = 0"
  shows "Output_push_char n cc = n\<lparr>out_lexBuffer := out_lexBuffer n @ [cc]\<rparr>"
  using assms by (simp add: Output_push_char_def)

lemma Output_escape_digits:
  assumes a: "out_arg n \<noteq> 0" and z: "out_octParseChar n = 0"
    and c2: "c2 \<noteq> 0x5C" "0x30 \<le> c2" "c2 \<le> 0x39"
    and c1: "c1 \<noteq> 0x5C" "0x30 \<le> c1" "c1 \<le> 0x39"
    and c0: "c0 \<noteq> 0x5C" "0x30 \<le> c0" "c0 \<le> 0x39"
  shows "foldl Output_push_char n [0x5C, c2, c1, c0]
         = n\<lparr>out_lexBuffer := out_lexBuffer n @ [((c2 - 0x30) * 8 + (c1 - 0x30)) * 8 + (c0 - 0x30)],
             out_octParseChar := 0, out_octParse := 0\<rparr>"
proof -
  define n1 where "n1 = n\<lparr>out_octParse := 1\<rparr>"
  define n2 where "n2 = n1\<lparr>out_octParseChar := out_octParseChar n1 * 8 + (c2 - 0x30),
    out_octParse := out_octParse n1 + 1\<rparr>"
  define n3 where "n3 = n2\<lparr>out_octParseChar := out_octParseChar n2 * 8 + (c1 - 0x30),
    out_octParse := out_octParse n2 + 1\<rparr>"
  have s1: "Output_push_char n 0x5C = n1"
    using a by (simp add: n1_def Output_push_backslash)
  have s2: "Output_push_char n1 c2 = n2"
    unfolding n2_def by (rule Output_push_digit) (use a c2 in \<open>simp_all add: n1_def\<close>)
  have s3: "Output_push_char n2 c1 = n3"
    unfolding n3_def by (rule Output_push_digit) (use a c1 in \<open>simp_all add: n1_def n2_def\<close>)
  have s4: "Output_push_char n3 c0 =
      n3\<lparr>out_lexBuffer := out_lexBuffer n3 @ [out_octParseChar n3 * 8 + (c0 - 0x30)],
         out_octParseChar := 0, out_octParse := 0\<rparr>"
    by (rule Output_push_last_digit) (use a c0 in \<open>simp_all add: n1_def n2_def n3_def\<close>)
  have "foldl Output_push_char n [0x5C, c2, c1, c0] = Output_push_char n3 c0"
    by (simp add: s1 s2 s3)
  also have "\<dots> = n\<lparr>out_lexBuffer := out_lexBuffer n @ [((c2 - 0x30) * 8 + (c1 - 0x30)) * 8 + (c0 - 0x30)],
             out_octParseChar := 0, out_octParse := 0\<rparr>"
    unfolding s4 using z by (simp add: n1_def n2_def n3_def)
  finally show ?thesis .
qed

lemma Output_octalEscape:
  assumes "out_arg n \<noteq> 0" "out_octParseChar n = 0" "b \<le> 255"
  shows "foldl Output_push_char n (octalEscape b)
         = n\<lparr>out_lexBuffer := out_lexBuffer n @ [of_nat b], out_octParseChar := 0, out_octParse := 0\<rparr>"
proof -
  have d2: "b div 64 < 8" using assms(3) by simp
  have d1: "b div 8 mod 8 < 8" by simp
  have d0: "b mod 8 < 8" by simp
  note c2 = octal_digit_char [OF d2] and c1 = octal_digit_char [OF d1] and c0 = octal_digit_char [OF d0]
  have "foldl Output_push_char n (octalEscape b) =
    n\<lparr>out_lexBuffer := out_lexBuffer n @
        [((0x30 + of_nat (b div 64) - 0x30) * 8 + (0x30 + of_nat (b div 8 mod 8) - 0x30)) * 8
           + (0x30 + of_nat (b mod 8) - 0x30)],
      out_octParseChar := 0, out_octParse := 0\<rparr>"
    unfolding octalEscape_def
    by (rule Output_escape_digits) (use assms(1,2) c2 c1 c0 in blast)+
  then show ?thesis
    using octal_value [of b] by simp
qed

text \<open>A whole payload of escaped bytes decodes to the bytes, in order.\<close>

lemma Output_octalEscape_all:
  assumes "out_arg n \<noteq> 0" "out_octParseChar n = 0" "\<forall>b \<in> set bs. b \<le> 255"
  shows "foldl Output_push_char n (concat (map octalEscape bs))
         = (if bs = [] then n
            else n\<lparr>out_lexBuffer := out_lexBuffer n @ map of_nat bs, out_octParseChar := 0, out_octParse := 0\<rparr>)"
  using assms
proof (induction bs arbitrary: n)
  case Nil
  then show ?case by simp
next
  case (Cons b bs)
  define n' where "n' = n\<lparr>out_lexBuffer := out_lexBuffer n @ [of_nat b], out_octParseChar := 0, out_octParse := 0\<rparr>"
  have b: "b \<le> 255" using Cons.prems(3) by simp
  have step: "foldl Output_push_char n (octalEscape b) = n'"
    unfolding n'_def by (rule Output_octalEscape [OF Cons.prems(1,2) b])
  have n': "out_arg n' \<noteq> 0" "out_octParseChar n' = 0" "\<forall>b \<in> set bs. b \<le> 255"
    using Cons.prems by (simp_all add: n'_def)
  show ?case
    using Cons.IH [OF n'] by (simp add: step) (simp add: n'_def)
qed

text \<open>
  C4. For every byte \<open>b\<close> (\<open>0 \<le> b \<le> 255\<close>), pushing a backslash and the three octal
  digits of \<open>b\<close> into the payload part of a \<open>%output\<close> notification (the pane id has been
  consumed, \<open>arg \<noteq> 0\<close>, and no digits of an unfinished escape are pending, as when the
  payload starts and after every complete escape) appends exactly the code point \<open>b\<close> to
  the buffer that \<open>execute\<close> delivers, and leaves the decoder outside an escape.
\<close>

theorem C4_octal_escape_roundtrip:
  assumes "out_arg n \<noteq> 0" and "out_octParseChar n = 0" and "b \<le> 255"
  shows "Output_execute (foldl Output_push_char n (octalEscape b)) = (out_pane n, out_lexBuffer n @ [of_nat b])
    \<and> foldl Output_push_char n (octalEscape b)
        = n\<lparr>out_lexBuffer := out_lexBuffer n @ [of_nat b], out_octParseChar := 0, out_octParse := 0\<rparr>"
  by (simp add: Output_octalEscape [OF assms] Output_execute_def)

theorem C4_octal_escape_roundtrip_witness:
  "out_arg \<lparr>out_arg = 1, out_octParse = 0, out_octParseChar = 0, out_lexBuffer = [0x68], out_pane = Some 0\<rparr> \<noteq> 0
   \<and> out_octParseChar \<lparr>out_arg = 1, out_octParse = 0, out_octParseChar = 0, out_lexBuffer = [0x68], out_pane = Some 0\<rparr> = 0
   \<and> (65::nat) \<le> 255
   \<and> Output_execute (foldl Output_push_char
        \<lparr>out_arg = 1, out_octParse = 0, out_octParseChar = 0, out_lexBuffer = [0x68], out_pane = Some 0\<rparr>
        [0x5C, 0x31, 0x30, 0x31]) = (Some 0, [0x68, 0x41])"
  using C4_octal_escape_roundtrip
    [of "\<lparr>out_arg = 1, out_octParse = 0, out_octParseChar = 0, out_lexBuffer = [0x68], out_pane = Some 0\<rparr>" 65]
  by (simp add: octalEscape_def Output_execute_def)

text \<open>
  In the payload part (\<open>arg = 3\<close>) \<open>TmuxExtendedOutputNotification::push_char\<close> makes the same
  step as \<open>TmuxOutputNotification::push_char\<close> does in its payload part (\<open>arg \<noteq> 0\<close>).
\<close>

lemma ExtendedOutput_Output_step:
  assumes "ext_arg e = 3" "out_arg n \<noteq> 0"
    "ext_octParse e = out_octParse n" "ext_octParseChar e = out_octParseChar n"
    "ext_lexBuffer e = out_lexBuffer n"
  shows "ext_arg (ExtendedOutput_push_char e cc) = 3 \<and> out_arg (Output_push_char n cc) \<noteq> 0
    \<and> ext_octParse (ExtendedOutput_push_char e cc) = out_octParse (Output_push_char n cc)
    \<and> ext_octParseChar (ExtendedOutput_push_char e cc) = out_octParseChar (Output_push_char n cc)
    \<and> ext_lexBuffer (ExtendedOutput_push_char e cc) = out_lexBuffer (Output_push_char n cc)"
  using assms by (simp add: ExtendedOutput_push_char_def Output_push_char_def Let_def)

text \<open>
  Hence the two payload branches, started with the same escape state and the same buffer,
  decode every input to the same buffer.
\<close>

lemma ExtendedOutput_payload_branch_like_Output:
  assumes "ext_arg e = 3" and "out_arg n \<noteq> 0"
    and "ext_octParse e = out_octParse n" and "ext_octParseChar e = out_octParseChar n"
    and "ext_lexBuffer e = out_lexBuffer n"
  shows "ext_lexBuffer (foldl ExtendedOutput_push_char e cs) = out_lexBuffer (foldl Output_push_char n cs)"
  using assms
proof (induction cs arbitrary: e n)
  case Nil
  then show ?case by simp
next
  case (Cons cc cs)
  from ExtendedOutput_Output_step [OF Cons.prems, of cc] show ?case
    by (simp add: Cons.IH)
qed

text \<open>
  The payload part of \<open>%extended-output\<close> is entered from \<open>arg = 2\<close> when the buffer holds
  the single character \<open>:\<close>, but with \<open>arg = 2\<close> no character is stored: a parser that
  starts with \<open>arg = 0\<close> never gets to \<open>arg = 3\<close>.
\<close>

lemma ExtendedOutput_push_char_before_payload:
  assumes "ext_arg n = 0 \<or> ext_arg n = 1 \<or> (ext_arg n = 2 \<and> ext_lexBuffer n = [])"
  shows "ext_arg (ExtendedOutput_push_char n cc) = 0 \<or> ext_arg (ExtendedOutput_push_char n cc) = 1
    \<or> (ext_arg (ExtendedOutput_push_char n cc) = 2 \<and> ext_lexBuffer (ExtendedOutput_push_char n cc) = [])"
  using assms by (auto simp add: ExtendedOutput_push_char_def)

lemma ExtendedOutput_payload_not_reached:
  assumes "ext_arg n = 0 \<or> ext_arg n = 1 \<or> (ext_arg n = 2 \<and> ext_lexBuffer n = [])"
  shows "ext_arg (foldl ExtendedOutput_push_char n cs) \<noteq> 3"
proof -
  have "ext_arg (foldl ExtendedOutput_push_char n cs) = 0
      \<or> ext_arg (foldl ExtendedOutput_push_char n cs) = 1
      \<or> (ext_arg (foldl ExtendedOutput_push_char n cs) = 2
          \<and> ext_lexBuffer (foldl ExtendedOutput_push_char n cs) = [])"
    using assms
  proof (induction cs arbitrary: n)
    case Nil
    then show ?case by simp
  next
    case (Cons cc cs)
    from Cons.IH [OF ExtendedOutput_push_char_before_payload [OF Cons.prems, of cc]]
    show ?case by simp
  qed
  then show ?thesis by auto
qed

text \<open>With \<open>arg = 2\<close> and an empty buffer every further character is dropped.\<close>

lemma ExtendedOutput_push_char_dropped:
  assumes "ext_arg n = 2" "ext_lexBuffer n = []"
  shows "ExtendedOutput_push_char n cc = n"
  using assms by (simp add: ExtendedOutput_push_char_def)

lemma ExtendedOutput_payload_dropped:
  assumes "ext_arg n = 2" "ext_lexBuffer n = []"
  shows "foldl ExtendedOutput_push_char n cs = n"
  using assms
proof (induction cs)
  case Nil
  then show ?case by simp
next
  case (Cons cc cs)
  then show ?case by (simp add: ExtendedOutput_push_char_dropped)
qed

text \<open>The pane and age arguments \<open>%0 12\<close> of a zero-initialised parser.\<close>

lemma ExtendedOutput_arguments:
  "foldl ExtendedOutput_push_char
     \<lparr>ext_arg = 0, ext_octParse = 0, ext_octParseChar = 0, ext_lexBuffer = [], ext_pane = Some 0, ext_age = 0\<rparr>
     [0x25, 0x30, 0x20, 0x31, 0x32, 0x20]
   = \<lparr>ext_arg = 2, ext_octParse = 0, ext_octParseChar = 0, ext_lexBuffer = [], ext_pane = Some 0, ext_age = 12\<rparr>"
  by (simp add: ExtendedOutput_push_char_def parseTmuxPaneId_def parseTmuxId_def QString_toInt_def
      QString_toULongLong_def QString_toIntegral_def trimmed_def isSpace_def isDigit_def decValue_def Let_def)

text \<open>
  C6. The arguments \<open>%0 12 :\<close> and the payload \<open>a\<close> followed by the octal escape of
  \<open>A\<close>, pushed into a zero-initialised \<open>%extended-output\<close> parser, deliver the pane 0,
  the age 12 and an empty payload, while the argument \<open>%0\<close> and the same payload pushed
  into a zero-initialised \<open>%output\<close> parser deliver the payload \<open>aA\<close>: the escape
  decoding of \<open>%output\<close> is never applied to the payload of \<open>%extended-output\<close>.
\<close>

theorem C6_extended_output_payload_dropped:
  "ExtendedOutput_execute (foldl ExtendedOutput_push_char
     \<lparr>ext_arg = 0, ext_octParse = 0, ext_octParseChar = 0, ext_lexBuffer = [], ext_pane = Some 0, ext_age = 0\<rparr>
     [0x25, 0x30, 0x20, 0x31, 0x32, 0x20, 0x3A, 0x20, 0x61, 0x5C, 0x31, 0x30, 0x31])
   = (Some 0, 12, [])
   \<and> Output_execute (foldl Output_push_char
     \<lparr>out_arg = 0, out_octParse = 0, out_octParseChar = 0, out_lexBuffer = [], out_pane = Some 0\<rparr>
     [0x25, 0x30, 0x20, 0x61, 0x5C, 0x31, 0x30, 0x31])
   = (Some 0, [0x61, 0x41])"
  by (simp add: ExtendedOutput_execute_def ExtendedOutput_push_char_def Output_execute_def
      Output_push_char_def parseTmuxPaneId_def parseTmuxId_def QString_toInt_def
      QString_toULongLong_def QString_toIntegral_def trimmed_def isSpace_def isDigit_def
      decValue_def Let_def)

section \<open>\<open>parseTmuxId\<close>\<close>

lemma isDigit_not_space_sign:
  "isDigit cc \<Longrightarrow> \<not> isSpace cc \<and> cc \<noteq> 0x2D \<and> cc \<noteq> 0x2B \<and> cc \<noteq> 0x2A"
  by (auto simp add: isDigit_def isSpace_def word_le_nat_alt)

lemma trimmed_digits:
  assumes "ds \<noteq> []" "list_all isDigit ds"
  shows "trimmed ds = ds"
proof -
  have h: "\<not> isSpace (hd ds)"
    using assms isDigit_not_space_sign by (cases ds) auto
  have l: "\<not> isSpace (hd (rev ds))"
    using assms isDigit_not_space_sign [of "last ds"]
    by (simp add: hd_rev list_all_iff)
  have "dropWhile isSpace ds = ds"
    using assms(1) h by (cases ds) auto
  moreover have "dropWhile isSpace (rev ds) = rev ds"
    using assms(1) l by (cases "rev ds") auto
  ultimately show ?thesis by (simp add: trimmed_def)
qed

lemma QString_toInt_digits:
  assumes "ds \<noteq> []" "list_all isDigit ds" "decValue ds < 2 ^ 31"
  shows "QString_toInt ds = (of_nat (decValue ds), True)"
proof -
  have h: "hd ds \<noteq> 0x2D \<and> hd ds \<noteq> 0x2B"
    using assms(1,2) isDigit_not_space_sign by (cases ds) auto
  have "QString_toIntegral True (- (2 ^ 31)) (2 ^ 31 - 1) ds = Some (int (decValue ds))"
    using assms h by (simp add: QString_toIntegral_def trimmed_digits Let_def)
  then show ?thesis by (simp add: QString_toInt_def)
qed

lemma parseTmuxId_wildcard:
  "parseTmuxId C [C, 0x2A] True = (Some (- 1), Some True)"
  by (simp add: parseTmuxId_def)

lemma parseTmuxId_digits:
  assumes "ds \<noteq> []" "list_all isDigit ds" "decValue ds < 2 ^ 31"
  shows "parseTmuxId C (C # ds) True = (Some (of_nat (decValue ds)), Some True)"
proof -
  obtain d ds' where ds: "ds = d # ds'" using assms(1) by (cases ds) auto
  have "d \<noteq> 0x2A" using assms(2) isDigit_not_space_sign [of d] by (simp add: ds)
  then have "parseTmuxId C (C # ds) True = (Some (fst (QString_toInt ds)), Some (snd (QString_toInt ds)))"
    by (simp add: parseTmuxId_def ds Let_def)
  then show ?thesis by (simp add: QString_toInt_digits [OF assms])
qed

lemma parseTmuxId_malformed:
  assumes "length lexBuffer < 2 \<or> lexBuffer ! 0 \<noteq> C"
  shows "parseTmuxId C lexBuffer True = (Some (- 2), Some False)"
  using assms by (auto simp add: parseTmuxId_def)

lemma parseTmuxId_toInt:
  assumes "length lexBuffer \<ge> 2" "lexBuffer ! 0 = C" "lexBuffer \<noteq> [C, 0x2A]"
  shows "parseTmuxId C lexBuffer True
         = (Some (fst (QString_toInt (drop 1 lexBuffer))), Some (snd (QString_toInt (drop 1 lexBuffer))))"
proof -
  have "\<not> (length lexBuffer = 2 \<and> lexBuffer ! 0 = C \<and> lexBuffer ! 1 = 0x2A)"
  proof
    assume a: "length lexBuffer = 2 \<and> lexBuffer ! 0 = C \<and> lexBuffer ! 1 = 0x2A"
    then obtain x y where "lexBuffer = [x, y]"
      by (cases lexBuffer; cases "tl lexBuffer") auto
    with a assms(3) show False by simp
  qed
  then show ?thesis
    using assms(1,2) by (auto simp add: parseTmuxId_def Let_def)
qed

text \<open>
  C7, as the code has it. For every buffer and every prefix character \<open>C\<close>, with \<open>ok\<close>
  given: the buffer \<open><C>*\<close> returns \<open>-1\<close> with \<open>ok\<close> true; \<open><C>\<close> followed by one or more
  decimal digits whose value fits an \<open>int\<close> returns that value with \<open>ok\<close> true; a buffer
  with fewer than two elements or not starting with \<open>C\<close> returns \<open>-2\<close> with \<open>ok\<close> false;
  every other buffer gets the result and the \<open>ok\<close> of \<open>QString::toInt\<close> on the text after
  \<open>C\<close>.
\<close>

theorem C7_parseTmuxId_cases:
  "(lexBuffer = [C, 0x2A] \<longrightarrow> parseTmuxId C lexBuffer True = (Some (- 1), Some True))
   \<and> (lexBuffer = C # ds \<and> ds \<noteq> [] \<and> list_all isDigit ds \<and> decValue ds < 2 ^ 31 \<longrightarrow>
        parseTmuxId C lexBuffer True = (Some (of_nat (decValue ds)), Some True))
   \<and> (length lexBuffer < 2 \<or> lexBuffer ! 0 \<noteq> C \<longrightarrow>
        parseTmuxId C lexBuffer True = (Some (- 2), Some False))
   \<and> (length lexBuffer \<ge> 2 \<and> lexBuffer ! 0 = C \<and> lexBuffer \<noteq> [C, 0x2A] \<longrightarrow>
        parseTmuxId C lexBuffer True
        = (Some (fst (QString_toInt (drop 1 lexBuffer))), Some (snd (QString_toInt (drop 1 lexBuffer)))))"
  using parseTmuxId_wildcard parseTmuxId_digits parseTmuxId_malformed parseTmuxId_toInt
  by blast

theorem C7_parseTmuxId_cases_witness:
  "parseTmuxId 0x24 [0x24, 0x2A] True = (Some (- 1), Some True)
   \<and> [0x34, 0x30, 0x37] \<noteq> ([] :: uint32 list) \<and> list_all isDigit [0x34, 0x30, 0x37]
   \<and> decValue [0x34, 0x30, 0x37] < 2 ^ 31
   \<and> parseTmuxId 0x40 [0x40, 0x34, 0x30, 0x37] True = (Some 407, Some True)
   \<and> length [0x34 :: uint32, 0x32] \<ge> 2 \<and> [0x34 :: uint32, 0x32] ! 0 \<noteq> 0x25
   \<and> parseTmuxId 0x25 [0x34, 0x32] True = (Some (- 2), Some False)
   \<and> parseTmuxId 0x24 [0x24, 0x31, 0x78] True = (Some 0, Some False)"
  using C7_parseTmuxId_cases [of "[0x24, 0x2A]" "0x24" "[]"]
    C7_parseTmuxId_cases [of "[0x40, 0x34, 0x30, 0x37]" "0x40" "[0x34, 0x30, 0x37]"]
    C7_parseTmuxId_cases [of "[0x34, 0x32]" "0x25" "[]"]
    C7_parseTmuxId_cases [of "[0x24, 0x31, 0x78]" "0x24" "[]"]
  by (simp add: isDigit_def decValue_def QString_toInt_def QString_toIntegral_def trimmed_def
      isSpace_def Let_def)

text \<open>
  The buffer \<open>$-1\<close> is not \<open>$*\<close>, and yet the result is \<open>-1\<close> with \<open>ok\<close> true:
  \<open>QString::toInt\<close> accepts a sign.
\<close>

theorem C7_minus_one_counterexample:
  "parseTmuxId 0x24 [0x24, 0x2D, 0x31] True = (Some (- 1), Some True)
   \<and> [0x24, 0x2D, 0x31] \<noteq> [0x24, 0x2A :: uint32]"
  by (simp add: parseTmuxId_def QString_toInt_def QString_toIntegral_def trimmed_def
      isSpace_def isDigit_def decValue_def Let_def)

text \<open>Ten nines do not fit an \<open>int\<close>: \<open>QString::toInt\<close> fails.\<close>

lemma parseTmuxId_overflow:
  "parseTmuxId 0x24 [0x24, 0x39, 0x39, 0x39, 0x39, 0x39, 0x39, 0x39, 0x39, 0x39, 0x39] True
   = (Some 0, Some False)"
  by (simp add: parseTmuxId_def QString_toInt_def QString_toIntegral_def trimmed_def
      isSpace_def isDigit_def decValue_def Let_def)

text \<open>
  C10. Called without \<open>ok\<close> on the empty buffer, \<open>parseTmuxId\<close> takes none of its three
  branches and returns \<open>ret\<close> unassigned.
\<close>

theorem C10_parseTmuxId_null_ok_unassigned:
  "parseTmuxId 0x24 [] False = (None, None)
   \<and> parseTmuxId 0x24 [0x40, 0x31] False = (None, None)"
  by (simp add: parseTmuxId_def)

lemma parseTmuxId_null_ok:
  "fst (parseTmuxId C lexBuffer False) = None \<longleftrightarrow> length lexBuffer < 2 \<or> lexBuffer ! 0 \<noteq> C"
  by (auto simp add: parseTmuxId_def Let_def)

lemma parseTmuxId_ok_assigned:
  "\<exists>r b. parseTmuxId C lexBuffer True = (Some r, Some b)"
  by (auto simp add: parseTmuxId_def Let_def)

section \<open>Window ids\<close>

text \<open>
  C8. The line \<open>@10\<close> pushed into a fresh \<open>%window-add\<close> parser delivers \<open>-2\<close>, not 10: the
  digit \<open>0\<close> fails \<open>cc > 0x30\<close>. The \<open>%unlinked-window-add\<close> parser delivers \<open>-2\<close> too,
  already at the \<open>@\<close>.
\<close>

theorem C8_window_id_with_zero_rejected:
  "WindowAdd_execute (foldl WindowAdd_push_char \<lparr>wa_arg = 0, wa_window = 0\<rparr> [0x40, 0x31, 0x30]) = - 2
   \<and> sint (WindowAdd_execute (foldl WindowAdd_push_char \<lparr>wa_arg = 0, wa_window = 0\<rparr> [0x40, 0x31, 0x30])) = - 2
   \<and> WindowAdd_execute (foldl WindowAdd_push_char \<lparr>wa_arg = 0, wa_window = 0\<rparr> [0x40, 0x30]) = - 2
   \<and> UnlinkedWindowAdd_execute
        (foldl UnlinkedWindowAdd_push_char \<lparr>uwa_arg = 0, uwa_window = 0\<rparr> [0x40, 0x31, 0x30]) = - 2"
  by (simp add: WindowAdd_execute_def WindowAdd_push_char_def UnlinkedWindowAdd_execute_def
      UnlinkedWindowAdd_push_char_def Let_def)

lemma WindowAdd_nonzero_digits:
  "WindowAdd_execute (foldl WindowAdd_push_char \<lparr>wa_arg = 0, wa_window = 0\<rparr> [0x40, 0x31, 0x32]) = 12"
  by (simp add: WindowAdd_execute_def WindowAdd_push_char_def)

lemma UnlinkedWindowAdd_at_sign:
  "uwa_arg n = 0 \<Longrightarrow> UnlinkedWindowAdd_push_char n 0x40 = n\<lparr>uwa_arg := 2, uwa_window := - 2\<rparr>"
  by (simp add: UnlinkedWindowAdd_push_char_def Let_def)

text \<open>
  Once a window-id parser has seen a character it does not accept, it stays at \<open>-2\<close>; the
  digit \<open>0\<close> is such a character wherever it stands, while the digits 1 to 9 accumulate.
\<close>

lemma WindowAdd_push_char_after_at:
  assumes "wa_arg n = 1 \<or> wa_arg n = 2"
  shows "wa_arg (WindowAdd_push_char n cc) = 1 \<or> wa_arg (WindowAdd_push_char n cc) = 2"
  using assms by (auto simp add: WindowAdd_push_char_def)

lemma WindowAdd_after_at:
  assumes "wa_arg n = 1 \<or> wa_arg n = 2"
  shows "wa_arg (foldl WindowAdd_push_char n cs) = 1 \<or> wa_arg (foldl WindowAdd_push_char n cs) = 2"
  using assms
proof (induction cs arbitrary: n)
  case Nil
  then show ?case by simp
next
  case (Cons cc cs)
  from Cons.IH [OF WindowAdd_push_char_after_at [OF Cons.prems, of cc]] show ?case by simp
qed

lemma WindowAdd_rejected_stays:
  assumes "wa_arg n = 2" "wa_window n = - 2"
  shows "foldl WindowAdd_push_char n cs = n"
  using assms
proof (induction cs)
  case Nil
  then show ?case by simp
next
  case (Cons cc cs)
  have "WindowAdd_push_char n cc = n"
    using Cons.prems by (simp add: WindowAdd_push_char_def)
  then show ?case using Cons by simp
qed

lemma WindowAdd_digit_zero:
  assumes "wa_arg n = 1 \<or> wa_arg n = 2"
  shows "WindowAdd_execute (foldl WindowAdd_push_char n (ds @ 0x30 # rest)) = - 2"
proof -
  define n1 where "n1 = foldl WindowAdd_push_char n ds"
  have a: "wa_arg n1 = 1 \<or> wa_arg n1 = 2"
    unfolding n1_def by (rule WindowAdd_after_at [OF assms])
  define n2 where "n2 = WindowAdd_push_char n1 0x30"
  have n2: "wa_arg n2 = 2" "wa_window n2 = - 2"
    using a by (auto simp add: n2_def WindowAdd_push_char_def)
  have "foldl WindowAdd_push_char n (ds @ 0x30 # rest) = foldl WindowAdd_push_char n2 rest"
    by (simp add: n1_def n2_def)
  also have "\<dots> = n2" by (rule WindowAdd_rejected_stays [OF n2])
  finally show ?thesis by (simp add: WindowAdd_execute_def n2)
qed

lemma WindowAdd_digits_without_zero:
  assumes "list_all (\<lambda>cc. 0x30 < cc \<and> cc \<le> 0x39) ds"
  shows "foldl WindowAdd_push_char \<lparr>wa_arg = 1, wa_window = w\<rparr> ds
         = \<lparr>wa_arg = 1, wa_window = decAccumulate w ds\<rparr>"
  using assms
proof (induction ds arbitrary: w)
  case Nil
  then show ?case by (simp add: decAccumulate_def)
next
  case (Cons d ds)
  then show ?case by (simp add: WindowAdd_push_char_def decAccumulate_def)
qed

section \<open>Bytes that are not octal digits\<close>

text \<open>
  C5. After a backslash the byte \<open>8\<close> (\<open>0x38\<close>) is taken as a digit of the escape: nothing
  is appended and the decoder stays inside the escape, in \<open>%output\<close> and in
  \<open>%extended-output\<close> alike.
\<close>

theorem C5_digit_eight_continues_escape:
  "foldl Output_push_char
     \<lparr>out_arg = 1, out_octParse = 0, out_octParseChar = 0, out_lexBuffer = [], out_pane = p\<rparr> [0x5C, 0x38]
   = \<lparr>out_arg = 1, out_octParse = 2, out_octParseChar = 8, out_lexBuffer = [], out_pane = p\<rparr>
   \<and> foldl ExtendedOutput_push_char
     \<lparr>ext_arg = 3, ext_octParse = 0, ext_octParseChar = 0, ext_lexBuffer = [], ext_pane = p, ext_age = a\<rparr>
     [0x5C, 0x38]
   = \<lparr>ext_arg = 3, ext_octParse = 2, ext_octParseChar = 8, ext_lexBuffer = [], ext_pane = p, ext_age = a\<rparr>"
  by (simp add: Output_push_char_def ExtendedOutput_push_char_def Let_def)

lemma Output_escape_189:
  "out_lexBuffer (foldl Output_push_char
     \<lparr>out_arg = 1, out_octParse = 0, out_octParseChar = 0, out_lexBuffer = [], out_pane = p\<rparr>
     [0x5C, 0x31, 0x38, 0x39]) = [137]"
  by (simp add: Output_push_char_def Let_def)

section \<open>The command queue of \<open>TmuxServerManager\<close>\<close>

lemmas manager_defs =
  run_def TmuxServerManager_new_def TmuxCommand_default_def TmuxCommand_new_def TmuxCommand_bool_def
  externalCommand_def sendCommand_def receiveCommandResponse_def receiveCommandError_def
  runResponseHandler_def emit_def init_def

lemma commandsSent_append: "commandsSent (es @ fs) = commandsSent es @ commandsSent fs"
  by (induction es rule: commandsSent.induct) simp_all

lemma responseHandlersCalled_append:
  "responseHandlersCalled (es @ fs) = responseHandlersCalled es @ responseHandlersCalled fs"
  by (induction es rule: responseHandlersCalled.induct) simp_all

lemma sendCommand_idle:
  "\<not> TmuxCommand_bool (m_currentCommand m) \<Longrightarrow>
   sendCommand m c = m\<lparr>m_currentCommand := c, m_trace := m_trace m @ [doSendCommand (m_command c)]\<rparr>"
  by (simp add: sendCommand_def emit_def)

lemma sendCommand_in_flight:
  "TmuxCommand_bool (m_currentCommand m) \<Longrightarrow>
   sendCommand m c = m\<lparr>m_pendingCommands := m_pendingCommands m @ [c]\<rparr>"
  by (simp add: sendCommand_def)

lemma receiveCommandError_keeps_queue:
  "m_pendingCommands (receiveCommandError m response) = m_pendingCommands m
   \<and> commandsSent (m_trace (receiveCommandError m response)) = commandsSent (m_trace m)"
  by (simp add: receiveCommandError_def emit_def commandsSent_append Let_def split: option.split)

text \<open>
  C3. After \<open>init()\<close> and one more \<open>sendCommand\<close> the \<open>ls\<close> command is in flight and two
  commands are pending. An error response then calls the error handler of the command in
  flight with the body and empties the slot, but the pending queue is left as it is and
  nothing is sent.
\<close>

theorem C3_error_leaves_queue_waiting:
  "TmuxCommand_bool (m_currentCommand (run [Init, SendCommand (externalCommand ''list-windows'' 1)]))
   \<and> m_pendingCommands (run [Init, SendCommand (externalCommand ''list-windows'' 1)])
      = [TmuxCommand_new [] (Some tmuxAttachHandler) None, externalCommand ''list-windows'' 1]
   \<and> m_trace (run [Init, SendCommand (externalCommand ''list-windows'' 1), ReceiveCommandError body])
      = m_trace (run [Init, SendCommand (externalCommand ''list-windows'' 1)])
        @ [errorHandlerCalled defaultErrorHandler body]
   \<and> \<not> TmuxCommand_bool
        (m_currentCommand (run [Init, SendCommand (externalCommand ''list-windows'' 1), ReceiveCommandError body]))
   \<and> m_pendingCommands (run [Init, SendCommand (externalCommand ''list-windows'' 1), ReceiveCommandError body])
      = [TmuxCommand_new [] (Some tmuxAttachHandler) None, externalCommand ''list-windows'' 1]"
  by (simp add: manager_defs)

text \<open>
  C1. Three commands are sent in the order 1, 2, 3, and the first one is answered by an
  error. The response handler of command 3 is called before that of command 2.
\<close>

theorem C1_error_reorders_commands:
  "responseHandlersCalled (m_trace (run
     [SendCommand (externalCommand ''c1'' 1),
      SendCommand (externalCommand ''c2'' 2),
      ReceiveCommandError [],
      SendCommand (externalCommand ''c3'' 3),
      ReceiveCommandResponse [], ReceiveCommandResponse [], ReceiveCommandResponse []]))
   = [externalHandler 3, tmuxAttachHandler, externalHandler 2]"
  by (simp add: manager_defs)

lemma answers_append: "answers (es @ fs) = answers es + answers fs"
  by (induction es rule: answers.induct) simp_all

lemma sentCommands_append: "sentCommands (cs @ ds) = sentCommands cs @ sentCommands ds"
  by (induction cs rule: sentCommands.induct) simp_all

lemma run_snoc: "run (calls @ [c]) = step (run calls) c"
  by (simp add: run_def)

text \<open>The response handlers leave the command slot and the queue alone, and send nothing.\<close>

lemma updateSessions_frame:
  "m_currentCommand (updateSessions m r) = m_currentCommand m
   \<and> m_pendingCommands (updateSessions m r) = m_pendingCommands m
   \<and> commandsSent (m_trace (updateSessions m r)) = commandsSent (m_trace m)
   \<and> responseHandlersCalled (m_trace (updateSessions m r)) = responseHandlersCalled (m_trace m)
   \<and> answers (m_trace (updateSessions m r)) = answers (m_trace m)"
  by (simp add: updateSessions_def emit_def commandsSent_append responseHandlersCalled_append
      answers_append)

lemma konsoleSize_frame:
  "m_currentCommand (konsoleSize m s r) = m_currentCommand m
   \<and> m_pendingCommands (konsoleSize m s r) = m_pendingCommands m
   \<and> commandsSent (m_trace (konsoleSize m s r)) = commandsSent (m_trace m)
   \<and> responseHandlersCalled (m_trace (konsoleSize m s r)) = responseHandlersCalled (m_trace m)
   \<and> answers (m_trace (konsoleSize m s r)) = answers (m_trace m)"
  by (simp add: konsoleSize_def emit_def commandsSent_append responseHandlersCalled_append
      answers_append Let_def split: option.split prod.split)

lemma runResponseHandler_frame:
  "m_currentCommand (runResponseHandler h r m) = m_currentCommand m
   \<and> m_pendingCommands (runResponseHandler h r m) = m_pendingCommands m
   \<and> commandsSent (m_trace (runResponseHandler h r m)) = commandsSent (m_trace m)
   \<and> responseHandlersCalled (m_trace (runResponseHandler h r m)) = responseHandlersCalled (m_trace m)
   \<and> answers (m_trace (runResponseHandler h r m)) = answers (m_trace m)"
  by (cases h) (simp_all add: runResponseHandler_def updateSessions_frame konsoleSize_frame)

text \<open>What \<open>receiveCommandResponse\<close> does to the slot, the queue and the trace.\<close>

lemma receiveCommandResponse_idle:
  assumes "\<not> TmuxCommand_bool (m_currentCommand m)"
  shows "receiveCommandResponse m r = m\<lparr>m_trace := m_trace m @ [unexpectedResponse]\<rparr>"
  using assms
  by (auto simp add: receiveCommandResponse_def TmuxCommand_bool_def emit_def split: option.split)

lemma receiveCommandResponse_in_flight:
  assumes "TmuxCommand_bool (m_currentCommand m)" "m_responseHandler (m_currentCommand m) = Some h"
  shows "m_currentCommand (receiveCommandResponse m r)
         = (case m_pendingCommands m of
              [] \<Rightarrow> (m_currentCommand m)\<lparr>m_responseHandler := None\<rparr>
            | c # cs \<Rightarrow> c)"
    and "m_pendingCommands (receiveCommandResponse m r) = tl (m_pendingCommands m)"
    and "commandsSent (m_trace (receiveCommandResponse m r))
         = commandsSent (m_trace m) @ map m_command (take 1 (m_pendingCommands m))"
    and "responseHandlersCalled (m_trace (receiveCommandResponse m r))
         = responseHandlersCalled (m_trace m) @ [h]"
    and "answers (m_trace (receiveCommandResponse m r)) = Suc (answers (m_trace m))"
  using assms runResponseHandler_frame [of h r "emit (responseHandlerCalled h r) m"]
  by (simp_all add: receiveCommandResponse_def TmuxCommand_bool_def emit_def Let_def
      commandsSent_append responseHandlersCalled_append answers_append split: list.split)

subsection \<open>At most one command in flight\<close>

lemma oneInFlight_new: "oneInFlight TmuxServerManager_new"
  by (simp add: oneInFlight_def TmuxServerManager_new_def TmuxCommand_bool_def
      TmuxCommand_new_def TmuxCommand_default_def)

lemma oneInFlight_sendCommand:
  assumes "oneInFlight m" "TmuxCommand_bool c"
  shows "oneInFlight (sendCommand m c)"
  using assms by (simp add: oneInFlight_def sendCommand_def emit_def commandsSent_append answers_append)

lemma oneInFlight_receiveCommandResponse:
  assumes "oneInFlight m"
  shows "oneInFlight (receiveCommandResponse m r)"
proof (cases "TmuxCommand_bool (m_currentCommand m)")
  case False
  then show ?thesis
    using assms by (simp add: receiveCommandResponse_idle oneInFlight_def commandsSent_append answers_append)
next
  case True
  then obtain h where h: "m_responseHandler (m_currentCommand m) = Some h"
    by (auto simp add: TmuxCommand_bool_def)
  note r = receiveCommandResponse_in_flight [OF True h, of r]
  show ?thesis
  proof (cases "m_pendingCommands m")
    case Nil
    then show ?thesis
      using assms True by (simp add: oneInFlight_def r TmuxCommand_bool_def)
  next
    case (Cons c cs)
    then show ?thesis
      using assms True by (simp add: oneInFlight_def r)
  qed
qed

lemma oneInFlight_receiveCommandError:
  assumes "oneInFlight m"
  shows "oneInFlight (receiveCommandError m r)"
  using assms
  by (auto simp add: oneInFlight_def receiveCommandError_def TmuxCommand_bool_def emit_def Let_def
      commandsSent_append answers_append split: option.split)

lemma oneInFlight_receiveSessionChanged:
  assumes "oneInFlight m"
  shows "oneInFlight (receiveSessionChanged m session name)"
proof (cases "m_sessions m session")
  case (Some s)
  then show ?thesis
    using assms by (simp add: receiveSessionChanged_def oneInFlight_def)
next
  case None
  define m' where "m' = m\<lparr>m_sessions := (m_sessions m)(session \<mapsto> TmuxSessionManager_new name)\<rparr>"
  define c where "c = TmuxCommand_new
      (''show -v -q -t $'' @ QString_number (sint (m_activeSession m)) @ '' @konsole_size'')
      (Some (konsoleSizeHandler session)) None"
  have "oneInFlight m'" using assms by (simp add: m'_def oneInFlight_def)
  moreover have "TmuxCommand_bool c" by (simp add: c_def TmuxCommand_bool_def TmuxCommand_new_def)
  ultimately have "oneInFlight (sendCommand m' c)" by (rule oneInFlight_sendCommand)
  then have "oneInFlight ((sendCommand m' c)\<lparr>m_activeSession := session\<rparr>)"
    by (simp add: oneInFlight_def)
  then show ?thesis
    using None by (simp add: receiveSessionChanged_def m'_def c_def)
qed

lemma oneInFlight_init:
  assumes "oneInFlight m"
  shows "oneInFlight (init m)"
  unfolding init_def
  by (rule oneInFlight_sendCommand [OF assms]) (simp add: TmuxCommand_bool_def TmuxCommand_new_def)

lemma oneInFlight_step:
  assumes "oneInFlight m" "wellFormedCall c"
  shows "oneInFlight (step m c)"
  using assms
  by (cases c)
    (simp_all add: oneInFlight_sendCommand oneInFlight_receiveCommandResponse
      oneInFlight_receiveCommandError oneInFlight_receiveSessionChanged oneInFlight_init)

text \<open>
  In every state the manager reaches, the commands sent over the outbound channel are the
  ones answered (by a call of a response or error handler) and at most one more, the one
  in the slot.
\<close>

lemma oneInFlight_run:
  assumes "list_all wellFormedCall calls"
  shows "oneInFlight (run calls)"
  using assms
proof (induction calls rule: rev_induct)
  case Nil
  then show ?case by (simp add: run_def oneInFlight_new)
next
  case (snoc c calls)
  then show ?case by (simp add: run_snoc oneInFlight_step)
qed

subsection \<open>Responses in the order of sending, as long as no error arrives\<close>

lemma notAttach_append: "notAttach (hs @ ks) = notAttach hs @ notAttach ks"
  by (simp add: notAttach_def)

lemma notAttach_pending_idle:
  assumes "list_all (\<lambda>c. m_responseHandler c = Some tmuxAttachHandler) cs"
  shows "notAttach (List.map_filter m_responseHandler cs) = []"
  using assms by (induction cs) (simp_all add: notAttach_def)

lemma map_filter_append: "List.map_filter f (xs @ ys) = List.map_filter f xs @ List.map_filter f ys"
  by (simp add: List.map_filter_def)

lemma queueReady_new: "queueReady TmuxServerManager_new"
  by (simp add: queueReady_def TmuxServerManager_new_def TmuxCommand_bool_def
      TmuxCommand_new_def TmuxCommand_default_def)

lemma fifoOrder_new: "fifoOrder TmuxServerManager_new = []"
  by (simp add: fifoOrder_def waiting_def notAttach_def TmuxServerManager_new_def TmuxCommand_bool_def
      TmuxCommand_new_def TmuxCommand_default_def)

lemma fifo_sendCommand:
  assumes "queueReady m" "TmuxCommand_bool c"
  shows "queueReady (sendCommand m c)"
    and "fifoOrder (sendCommand m c) = fifoOrder m @ notAttach (List.map_filter m_responseHandler [c])"
proof -
  show "queueReady (sendCommand m c)"
    using assms by (simp add: queueReady_def sendCommand_def emit_def)
  show "fifoOrder (sendCommand m c) = fifoOrder m @ notAttach (List.map_filter m_responseHandler [c])"
  proof (cases "TmuxCommand_bool (m_currentCommand m)")
    case True
    then obtain h where "m_responseHandler (m_currentCommand m) = Some h"
      by (auto simp add: TmuxCommand_bool_def)
    with True show ?thesis
      by (simp add: fifoOrder_def waiting_def sendCommand_in_flight notAttach_def map_filter_append)
  next
    case False
    obtain hc where hc: "m_responseHandler c = Some hc"
      using assms(2) by (auto simp add: TmuxCommand_bool_def)
    have p: "notAttach (List.map_filter m_responseHandler (m_pendingCommands m)) = []"
      using False assms(1) by (simp add: queueReady_def notAttach_pending_idle)
    have "fifoOrder (sendCommand m c)
          = notAttach (responseHandlersCalled (m_trace m))
            @ notAttach (hc # List.map_filter m_responseHandler (m_pendingCommands m))"
      using False assms(2) hc
      by (simp add: fifoOrder_def waiting_def sendCommand_idle notAttach_append
          responseHandlersCalled_append)
    also have "notAttach (hc # List.map_filter m_responseHandler (m_pendingCommands m)) = notAttach [hc]"
      using p by (simp add: notAttach_def)
    finally show ?thesis
      using False hc p by (simp add: fifoOrder_def waiting_def notAttach_append)
  qed
qed

lemma fifo_receiveCommandResponse:
  assumes "queueReady m"
  shows "queueReady (receiveCommandResponse m r)"
    and "fifoOrder (receiveCommandResponse m r) = fifoOrder m"
proof -
  have "queueReady (receiveCommandResponse m r) \<and> fifoOrder (receiveCommandResponse m r) = fifoOrder m"
  proof (cases "TmuxCommand_bool (m_currentCommand m)")
    case False
    then show ?thesis
      using assms
      by (simp add: receiveCommandResponse_idle queueReady_def fifoOrder_def waiting_def
          responseHandlersCalled_append)
  next
    case True
    then obtain h where h: "m_responseHandler (m_currentCommand m) = Some h"
      by (auto simp add: TmuxCommand_bool_def)
    note r = receiveCommandResponse_in_flight [OF True h, of r]
    show ?thesis
    proof (cases "m_pendingCommands m")
      case Nil
      then show ?thesis
        using True h
        by (simp add: queueReady_def fifoOrder_def waiting_def r TmuxCommand_bool_def
            notAttach_append)
    next
      case (Cons c cs)
      then show ?thesis
        using assms True h
        by (simp add: queueReady_def fifoOrder_def waiting_def r notAttach_append)
    qed
  qed
  then show "queueReady (receiveCommandResponse m r)"
    and "fifoOrder (receiveCommandResponse m r) = fifoOrder m" by simp_all
qed

text \<open>
  On a run of \<open>sendCommand\<close> and \<open>receiveCommandResponse\<close> calls the response handlers called
  so far, followed by those of the commands that wait, are the response handlers of the
  commands sent, in the order of sending.
\<close>

lemma fifo_without_errors:
  assumes "list_all sendOrResponse calls"
  shows "queueReady (run calls)
    \<and> fifoOrder (run calls) = notAttach (List.map_filter m_responseHandler (sentCommands calls))"
  using assms
proof (induction calls rule: rev_induct)
  case Nil
  then show ?case
    by (simp add: run_def queueReady_new fifoOrder_new notAttach_def)
next
  case (snoc c calls)
  then have ih: "queueReady (run calls)"
    "fifoOrder (run calls) = notAttach (List.map_filter m_responseHandler (sentCommands calls))"
    and c: "sendOrResponse c"
    by simp_all
  show ?case
  proof (cases c)
    case (SendCommand cmd)
    then have "TmuxCommand_bool cmd" using c by simp
    from fifo_sendCommand [OF ih(1) this] show ?thesis
      by (simp add: run_snoc SendCommand ih(2) sentCommands_append notAttach_append map_filter_append)
  next
    case (ReceiveCommandResponse r)
    from fifo_receiveCommandResponse [OF ih(1), of r] show ?thesis
      by (simp add: run_snoc ReceiveCommandResponse ih(2) sentCommands_append)
  qed (use c in simp_all)
qed

section \<open>Sessions\<close>

lemma decAccumulate_decValue_from:
  "decAccumulate (of_nat a) ds = of_nat (foldl (\<lambda>v cc. 10 * v + unat (cc - 0x30)) a ds)"
proof (induction ds arbitrary: a)
  case Nil
  then show ?case by (simp add: decAccumulate_def)
next
  case (Cons d ds)
  have "of_nat a * 10 + (d - 0x30) = (of_nat (10 * a + unat (d - 0x30)) :: uint32)"
    by simp
  then have "decAccumulate (of_nat a) (d # ds) = decAccumulate (of_nat (10 * a + unat (d - 0x30))) ds"
    by (simp only: decAccumulate_def foldl_Cons)
  also have "\<dots> = of_nat (foldl (\<lambda>v cc. 10 * v + unat (cc - 0x30)) (10 * a + unat (d - 0x30)) ds)"
    by (rule Cons.IH)
  finally show ?case by simp
qed

lemma decAccumulate_decValue: "decAccumulate 0 ds = of_nat (decValue ds)"
  using decAccumulate_decValue_from [of 0 ds] by (simp add: decValue_def)

lemma decAccumulate_Cons: "decAccumulate v (d # ds) = decAccumulate (v * 10 + (d - 0x30)) ds"
  by (simp add: decAccumulate_def)

text \<open>The \<open>@konsole_size\<close> handler reads \<open><W>,<H>\<close>.\<close>

lemma konsoleSizeLoop_width:
  assumes "list_all isDigit ws"
  shows "konsoleSizeLoop (ws @ rest) 0 width height = konsoleSizeLoop rest 0 (decAccumulate width ws) height"
  using assms
proof (induction ws arbitrary: width)
  case Nil
  then show ?case by (simp add: decAccumulate_def)
next
  case (Cons d ws)
  then show ?case by (simp add: isDigit_def decAccumulate_Cons)
qed

lemma konsoleSizeLoop_height:
  assumes "list_all isDigit hs"
  shows "konsoleSizeLoop hs 1 width height = Some (width, decAccumulate height hs)"
  using assms
proof (induction hs arbitrary: height)
  case Nil
  then show ?case by (simp add: decAccumulate_def)
next
  case (Cons d hs)
  then show ?case by (simp add: isDigit_def decAccumulate_Cons)
qed

lemma konsoleSizeLoop_pair:
  assumes "list_all isDigit ws" "list_all isDigit hs"
  shows "konsoleSizeLoop (ws @ 0x2C # hs) 0 0 0 = Some (of_nat (decValue ws), of_nat (decValue hs))"
  using konsoleSizeLoop_width [OF assms(1), of "0x2C # hs" 0 0] konsoleSizeLoop_height [OF assms(2), of _ 0]
  by (simp add: decAccumulate_decValue)

lemma konsoleSize_sets_size:
  assumes "m_sessions m session = Some s" "list_all isDigit ws" "list_all isDigit hs"
  shows "m_sessions (konsoleSize m session [ws @ 0x2C # hs]) session
         = Some (setGuiWindowSize s (of_nat (decValue ws)) (of_nat (decValue hs)))"
  using assms(1) by (simp add: konsoleSize_def konsoleSizeLoop_pair [OF assms(2,3)])

text \<open>
  A new session: the record is created and the session becomes the active one; the
  follow-up command names the session that was active before the call.
\<close>

lemma receiveSessionChanged_new_session:
  assumes "m_sessions m session = None" "\<not> TmuxCommand_bool (m_currentCommand m)"
  shows "m_sessions (receiveSessionChanged m session name) session = Some (TmuxSessionManager_new name)"
    and "m_activeSession (receiveSessionChanged m session name) = session"
    and "commandsSent (m_trace (receiveSessionChanged m session name))
         = commandsSent (m_trace m)
           @ [''show -v -q -t $'' @ QString_number (sint (m_activeSession m)) @ '' @konsole_size'']"
  using assms
  by (simp_all add: receiveSessionChanged_def sendCommand_def emit_def TmuxCommand_new_def
      commandsSent_append)

text \<open>
  C2. The first \<open>%session-changed\<close>, for the new session 0: the session record is created
  with the name, the session becomes the active one, and the size in a response \<open>80,24\<close>
  is stored, but the follow-up command is sent for the session \<open>$-1\<close>, not \<open>$0\<close>.
\<close>

theorem C2_followup_names_previous_session:
  "m_sessions (run [ReceiveSessionChanged 0 name]) 0 = Some (TmuxSessionManager_new name)
   \<and> m_activeSession (run [ReceiveSessionChanged 0 name]) = 0
   \<and> commandsSent (m_trace (run [ReceiveSessionChanged 0 name])) = [''show -v -q -t $-1 @konsole_size'']
   \<and> m_sessions (run [ReceiveSessionChanged 0 name,
        ReceiveCommandResponse [[0x38, 0x30, 0x2C, 0x32, 0x34]]]) 0
      = Some \<lparr>m_name = name, m_guiWindowSize = Some (80, 24)\<rparr>"
  by (simp add: run_def TmuxServerManager_new_def TmuxCommand_default_def TmuxCommand_new_def
      TmuxCommand_bool_def receiveSessionChanged_def sendCommand_def emit_def
      receiveCommandResponse_def runResponseHandler_def konsoleSize_def setGuiWindowSize_def
      TmuxSessionManager_new_def QString_number_def decDigit_def Let_def)

lemma receiveSessionChanged_second_session:
  "commandsSent (m_trace (run [ReceiveSessionChanged 3 name, ReceiveCommandResponse [],
     ReceiveCommandResponse [], ReceiveSessionChanged 12 name']))
   = [''show -v -q -t $-1 @konsole_size'', [], ''show -v -q -t $3 @konsole_size'']"
  by (simp add: run_def TmuxServerManager_new_def TmuxCommand_default_def TmuxCommand_new_def
      TmuxCommand_bool_def receiveSessionChanged_def sendCommand_def emit_def
      receiveCommandResponse_def runResponseHandler_def konsoleSize_def
      TmuxSessionManager_new_def QString_number_def decDigit_def Let_def)

text \<open>\<open>updateSessions\<close> reads \<open>$<id> <name>\<close> into its local vector.\<close>

lemma sessionStringStep_digits:
  assumes "list_all isDigit ds"
  shows "foldl sessionStringStep (1, i, session) ds = (1, i + int (length ds), decAccumulate session ds)"
  using assms
proof (induction ds arbitrary: i session)
  case Nil
  then show ?case by (simp add: decAccumulate_def)
next
  case (Cons d ds)
  then show ?case by (simp add: sessionStringStep_def isDigit_def decAccumulate_Cons)
qed

lemma sessionStringStep_name: "foldl sessionStringStep (2, i, session) name = (2, i, session)"
  by (induction name) (simp_all add: sessionStringStep_def)

lemma parseSessionString_line:
  assumes "list_all isDigit ds"
  shows "parseSessionString (0x24 # ds @ 0x20 # name) = (2, of_nat (decValue ds), name)"
proof -
  have "foldl sessionStringStep (0, 0, 0) (0x24 # ds @ 0x20 # name)
        = foldl sessionStringStep (foldl sessionStringStep (1, 1, 0) ds) (0x20 # name)"
    by (simp add: sessionStringStep_def)
  also have "\<dots> = foldl sessionStringStep (1, 1 + int (length ds), decAccumulate 0 ds) (0x20 # name)"
    by (simp add: sessionStringStep_digits [OF assms])
  also have "\<dots> = (2, 2 + int (length ds), decAccumulate 0 ds)"
    by (simp add: sessionStringStep_def sessionStringStep_name)
  finally show ?thesis
    by (simp add: parseSessionString_def decAccumulate_decValue nat_add_distrib)
qed

lemma updateSessions_keeps_sessions: "m_sessions (updateSessions m response) = m_sessions m"
  by (simp add: updateSessions_def emit_def)

text \<open>
  C9. \<open>init()\<close> sends the \<open>ls\<close> command, and \<open>updateSessions\<close> reads the response line
  \<open>$0 default\<close> as the pair (0, \<open>default\<close>); after the response has been handled the
  session table is still empty.
\<close>

theorem C9_updateSessions_records_nothing:
  "commandsSent (m_trace (run [Init]))
     = [''ls -F '' @ [CHR 0x27] @ ''#{session_id} #{q:session_name}'' @ [CHR 0x27]]
   \<and> updatedSessions [[0x24, 0x30, 0x20, 0x64, 0x65, 0x66, 0x61, 0x75, 0x6C, 0x74]]
     = [(0, [0x64, 0x65, 0x66, 0x61, 0x75, 0x6C, 0x74])]
   \<and> responseHandlersCalled (m_trace (run [Init,
        ReceiveCommandResponse [[0x24, 0x30, 0x20, 0x64, 0x65, 0x66, 0x61, 0x75, 0x6C, 0x74]]]))
     = [updateSessionsHandler]
   \<and> m_sessions (run [Init,
        ReceiveCommandResponse [[0x24, 0x30, 0x20, 0x64, 0x65, 0x66, 0x61, 0x75, 0x6C, 0x74]]]) 0 = None
   \<and> m_sessions (run [Init,
        ReceiveCommandResponse [[0x24, 0x30, 0x20, 0x64, 0x65, 0x66, 0x61, 0x75, 0x6C, 0x74]]]) = Map.empty"
  by (simp add: run_def TmuxServerManager_new_def TmuxCommand_default_def TmuxCommand_new_def
      TmuxCommand_bool_def init_def sendCommand_def emit_def receiveCommandResponse_def
      runResponseHandler_def updateSessions_def updatedSessions_def parseSessionString_def
      sessionStringStep_def Let_def)

end
